theory Spec2Isabelle
  imports Main
begin

section \<open>Feedback scoring of radiology reports: an embedding of feedback_generator.py\<close>

text \<open>
  The theory embeds \<^verbatim>\<open>AdvancedFeedbackGenerator\<close> of \<^verbatim>\<open>src/feedback_generator.py\<close>
  and the line of \<^verbatim>\<open>analyze_report\<close> in \<^verbatim>\<open>src/api_service.py\<close> that builds the gold
  standard list.

  Conventions of the embedding.
  \<^item> A Python \<^verbatim>\<open>str\<close> is a \<open>string\<close>. Report texts are taken to be ASCII: \<open>lower\<close> and
    \<open>split\<close> below follow Python on the ASCII range and leave every other character alone.
  \<^item> A Python \<^verbatim>\<open>set\<close> of strings is a list without duplicates. Python iterates a set in an
    order the language does not fix, so the order of such a list is an artefact of the model;
    the theorems about sets speak of their elements (\<open>set xs\<close>) and their size (\<open>length xs\<close>).
  \<^item> Python's \<^verbatim>\<open>int\<close> is \<open>int\<close>.
\<close>

subsection \<open>String primitives\<close>

text \<open>\<^verbatim>\<open>s.startswith(p)\<close>\<close>

definition startswith :: "string \<Rightarrow> string \<Rightarrow> bool" where
  "startswith s p = (take (length p) s = p)"

text \<open>\<^verbatim>\<open>s.lstrip('-')\<close>: every leading occurrence of the character is removed.\<close>

definition lstrip :: "char \<Rightarrow> string \<Rightarrow> string" where
  "lstrip c s = dropWhile (\<lambda>d. d = c) s"

text \<open>\<^verbatim>\<open>p in s\<close> on strings: \<open>p\<close> occurs in \<open>s\<close> as a contiguous substring.\<close>

fun contains :: "string \<Rightarrow> string \<Rightarrow> bool" where
  "contains p [] = (p = [])"
| "contains p (c # cs) = (startswith (c # cs) p \<or> contains p cs)"

text \<open>\<^verbatim>\<open>s.lower()\<close> on ASCII text.\<close>

definition lower_char :: "char \<Rightarrow> char" where
  "lower_char c =
     (case map_of (zip ''ABCDEFGHIJKLMNOPQRSTUVWXYZ'' ''abcdefghijklmnopqrstuvwxyz'') c of
        Some d \<Rightarrow> d
      | None \<Rightarrow> c)"

definition lower :: "string \<Rightarrow> string" where
  "lower s = map lower_char s"

text \<open>
  \<^verbatim>\<open>s.split()\<close> with no argument: the maximal runs of non-whitespace characters.
  The ASCII characters for which \<^verbatim>\<open>str.isspace\<close> holds are 0x09 to 0x0D, 0x1C to 0x1F
  and the blank.
\<close>

definition isspace :: "char \<Rightarrow> bool" where
  "isspace c \<longleftrightarrow>
     c \<in> set [CHR 0x09, CHR 0x0A, CHR 0x0B, CHR 0x0C, CHR 0x0D,
              CHR 0x1C, CHR 0x1D, CHR 0x1E, CHR 0x1F, CHR '' '']"

fun split_from :: "string \<Rightarrow> string \<Rightarrow> string list" where
  "split_from w [] = (if w = [] then [] else [w])"
| "split_from w (c # cs) =
     (if isspace c then (if w = [] then split_from [] cs else w # split_from [] cs)
      else split_from (w @ [c]) cs)"

definition split :: "string \<Rightarrow> string list" where
  "split s = split_from [] s"

subsection \<open>Set operations of Python on duplicate-free lists\<close>

definition intersection :: "string list \<Rightarrow> string list \<Rightarrow> string list" where
  "intersection a b = filter (\<lambda>x. x \<in> set b) a"

definition difference :: "string list \<Rightarrow> string list \<Rightarrow> string list" where
  "difference a b = filter (\<lambda>x. x \<notin> set b) a"

definition union :: "string list \<Rightarrow> string list \<Rightarrow> string list" where
  "union a b = remdups (a @ b)"

subsection \<open>The style critic: \<^verbatim>\<open>_check_report_style\<close>\<close>

definition unprofessional_phrases :: "string list" where
  "unprofessional_phrases =
     [''i think'', ''looks like'', ''maybe a'', ''stuff'', ''bad finding'']"

definition phrase_advisory :: "string \<Rightarrow> string" where
  "phrase_advisory phrase =
     ''The phrase '' @ [CHR 0x27] @ phrase @ [CHR 0x27] @
     '' is unprofessional. Aim for objective, confident language (e.g., 'consistent with' or 'suggestive of').''"

definition brief_advisory :: string where
  "brief_advisory =
     ''The report is very brief. Ensure all relevant positive and negative findings are documented.''"

definition long_advisory :: string where
  "long_advisory =
     ''The report is quite long. Strive for clarity and conciseness, especially in the impression.''"

text \<open>
  The loop over the phrases: \<open>style_feedback\<close> is the list built so far, and a phrase found
  in the lowered text appends its advisory.
\<close>

fun phrase_loop :: "string \<Rightarrow> string list \<Rightarrow> string list \<Rightarrow> string list" where
  "phrase_loop text_lower [] style_feedback = style_feedback"
| "phrase_loop text_lower (phrase # rest) style_feedback =
     phrase_loop text_lower rest
       (if contains phrase text_lower then style_feedback @ [phrase_advisory phrase]
        else style_feedback)"

definition word_count :: "string \<Rightarrow> int" where
  "word_count report_text = int (length (split report_text))"

definition check_report_style :: "string \<Rightarrow> string list" where
  "check_report_style report_text =
     (let text_lower = lower report_text;
          style_feedback = phrase_loop text_lower unprofessional_phrases []
      in if word_count report_text < 15 then style_feedback @ [brief_advisory]
         else if word_count report_text > 100 then style_feedback @ [long_advisory]
         else style_feedback)"

subsection \<open>The inputs of \<^verbatim>\<open>generate_feedback\<close>\<close>

text \<open>
  A candidate finding of the rule-based analyzer is a dict with the keys \<^verbatim>\<open>type\<close>,
  \<^verbatim>\<open>text\<close> and \<^verbatim>\<open>negated\<close>; \<^verbatim>\<open>generate_feedback\<close> reads \<^verbatim>\<open>f['type']\<close> and the truth
  value of \<^verbatim>\<open>f.get('negated')\<close>, which the analyzer always sets to a \<^verbatim>\<open>bool\<close>.
  Of \<^verbatim>\<open>student_analysis\<close> it reads \<^verbatim>\<open>['fallback']['findings']\<close> and \<^verbatim>\<open>['report_text']\<close>.
\<close>

record finding =
  type :: string
  negated :: bool

record fallback_results =
  findings :: "finding list"

record student_analysis =
  fallback :: fallback_results
  report_text :: string

record feedback =
  correct_observations :: "string list"
  missed_findings :: "string list"
  misinterpretations :: "string list"
  clarity_and_style :: "string list"
  tips :: "string list"
  overall_score :: int

subsection \<open>Steps 1 and 2: parsing the ground truth and the student's findings\<close>

definition expert_positives :: "string list \<Rightarrow> string list" where
  "expert_positives expert_findings =
     remdups (filter (\<lambda>f. \<not> startswith f ''-'') expert_findings)"

definition expert_negatives :: "string list \<Rightarrow> string list" where
  "expert_negatives expert_findings =
     remdups (map (lstrip CHR ''-'') (filter (\<lambda>f. startswith f ''-'') expert_findings))"

definition student_positives :: "student_analysis \<Rightarrow> string list" where
  "student_positives sa =
     remdups (map type (filter (\<lambda>f. \<not> negated f) (findings (fallback sa))))"

definition student_negatives :: "student_analysis \<Rightarrow> string list" where
  "student_negatives sa =
     remdups (map type (filter (\<lambda>f. negated f) (findings (fallback sa))))"

subsection \<open>Step 3: the categories\<close>

text \<open>
  The local variables of \<^verbatim>\<open>generate_feedback\<close>. Three of them share their name with a key
  of the returned dict, which holds the variable followed by the synthesized strings; the
  variables are called \<open>base_\<close> here and the record fields keep the keys' names.
\<close>

definition base_correct_observations :: "student_analysis \<Rightarrow> string list \<Rightarrow> string list" where
  "base_correct_observations sa ef =
     intersection (student_positives sa) (expert_positives ef)"

definition correct_negations :: "student_analysis \<Rightarrow> string list \<Rightarrow> string list" where
  "correct_negations sa ef = intersection (student_negatives sa) (expert_negatives ef)"

definition base_missed_findings :: "student_analysis \<Rightarrow> string list \<Rightarrow> string list" where
  "base_missed_findings sa ef = difference (expert_positives ef) (student_positives sa)"

definition missed_negations :: "student_analysis \<Rightarrow> string list \<Rightarrow> string list" where
  "missed_negations sa ef = difference (expert_negatives ef) (student_negatives sa)"

definition base_misinterpretations :: "student_analysis \<Rightarrow> string list \<Rightarrow> string list" where
  "base_misinterpretations sa ef = difference (student_positives sa) (expert_positives ef)"

definition negation_errors :: "student_analysis \<Rightarrow> string list \<Rightarrow> string list" where
  "negation_errors sa ef = intersection (student_positives sa) (expert_negatives ef)"

definition general_tips :: "string list" where
  "general_tips =
     [''Always conclude with a concise 'Impression' section summarizing the most critical findings.'',
      ''When describing a finding, try to mention its location (e.g., 'right lower lobe').'']"

subsection \<open>Step 4: the score and the feedback record\<close>

definition score :: "student_analysis \<Rightarrow> string list \<Rightarrow> int" where
  "score sa ef =
     100
     - int (length (base_missed_findings sa ef)) * 15
     - int (length (missed_negations sa ef)) * 5
     - int (length (base_misinterpretations sa ef)) * 20
     - int (length (negation_errors sa ef)) * 25
     - int (length (check_report_style (report_text sa))) * 5"

definition generate_feedback :: "student_analysis \<Rightarrow> string list \<Rightarrow> feedback" where
  "generate_feedback sa ef =
     \<lparr> correct_observations =
         base_correct_observations sa ef
         @ map (\<lambda>n. ''Absence of '' @ n) (correct_negations sa ef),
       missed_findings =
         base_missed_findings sa ef
         @ map (\<lambda>n. ''Missed stating the absence of '' @ n) (missed_negations sa ef),
       misinterpretations =
         base_misinterpretations sa ef
         @ map (\<lambda>n. ''Incorrectly identified '' @ n @ '' (should be absent)'')
             (negation_errors sa ef),
       clarity_and_style = check_report_style (report_text sa),
       tips = general_tips,
       overall_score = max 0 (min 100 (score sa ef)) \<rparr>"

subsection \<open>The gold standard of \<^verbatim>\<open>analyze_report\<close>\<close>

text \<open>
  \<^verbatim>\<open>list(expert_text_findings.union(visual_findings))\<close>, where both operands were made sets
  from the case library's list and from the vision analyzer's list.
\<close>

definition gold_standard_findings :: "string list \<Rightarrow> string list \<Rightarrow> string list" where
  "gold_standard_findings expert_text_findings visual_findings =
     union (remdups expert_text_findings) (remdups visual_findings)"

subsection \<open>Sample report texts\<close>

text \<open>A report of sixteen words with none of the flagged phrases, used in the examples.\<close>

abbreviation plain_report :: string where
  "plain_report \<equiv> ''the lungs are clear and the heart size is normal with no acute bony abnormality seen''"

section \<open>Properties\<close>

subsection \<open>Facts about the set operations and the parsers\<close>

lemma set_intersection: "set (intersection a b) = set a \<inter> set b"
  by (auto simp: intersection_def)

lemma set_difference: "set (difference a b) = set a - set b"
  by (auto simp: difference_def)

lemma set_union: "set (union a b) = set a \<union> set b"
  by (simp add: union_def)

lemma distinct_intersection: "distinct a \<Longrightarrow> distinct (intersection a b)"
  by (simp add: intersection_def)

lemma distinct_difference: "distinct a \<Longrightarrow> distinct (difference a b)"
  by (simp add: difference_def)

lemma length_intersection:
  "distinct a \<Longrightarrow> length (intersection a b) = card (set a \<inter> set b)"
  using distinct_card [of "intersection a b"]
  by (simp add: distinct_intersection set_intersection)

lemma length_difference:
  "distinct a \<Longrightarrow> length (difference a b) = card (set a - set b)"
  using distinct_card [of "difference a b"]
  by (simp add: distinct_difference set_difference)

lemma difference_empty_iff: "(difference a b = []) = (set a \<subseteq> set b)"
  by (auto simp: difference_def filter_empty_conv)

lemma intersection_empty_iff: "(intersection a b = []) = (set a \<inter> set b = {})"
  by (auto simp: intersection_def filter_empty_conv)

lemma distinct_expert_positives: "distinct (expert_positives ef)"
  by (simp add: expert_positives_def)

lemma distinct_expert_negatives: "distinct (expert_negatives ef)"
  by (simp add: expert_negatives_def)

lemma distinct_student_positives: "distinct (student_positives sa)"
  by (simp add: student_positives_def)

lemma distinct_student_negatives: "distinct (student_negatives sa)"
  by (simp add: student_negatives_def)

lemma set_expert_positives:
  "set (expert_positives ef) = {f \<in> set ef. \<not> startswith f ''-''}"
  by (simp add: expert_positives_def)

lemma set_expert_negatives:
  "set (expert_negatives ef) = lstrip CHR ''-'' ` {f \<in> set ef. startswith f ''-''}"
  by (simp add: expert_negatives_def)

lemma set_student_positives:
  "set (student_positives sa) = type ` {f \<in> set (findings (fallback sa)). \<not> negated f}"
  by (simp add: student_positives_def)

lemma set_student_negatives:
  "set (student_negatives sa) = type ` {f \<in> set (findings (fallback sa)). negated f}"
  by (simp add: student_negatives_def)




lemma lstrip_unmarked: "\<not> startswith s ''-'' \<Longrightarrow> lstrip CHR ''-'' s = s"
  by (cases s) (auto simp: startswith_def lstrip_def)

lemma phrase_loop_eq:
  "phrase_loop t ps acc = acc @ map phrase_advisory (filter (\<lambda>p. contains p t) ps)"
  by (induction ps arbitrary: acc) simp_all

lemma check_report_style_eq:
  "check_report_style t =
     map phrase_advisory (filter (\<lambda>p. contains p (lower t)) unprofessional_phrases)
     @ (if word_count t < 15 then [brief_advisory]
        else if word_count t > 100 then [long_advisory] else [])"
  by (simp add: check_report_style_def phrase_loop_eq)

lemma length_check_report_style: "length (check_report_style t) \<le> 6"
proof -
  have "length (filter (\<lambda>p. contains p (lower t)) unprofessional_phrases)
          \<le> length unprofessional_phrases"
    by (rule length_filter_le)
  also have "\<dots> = 5" by (simp add: unprofessional_phrases_def)
  finally show ?thesis by (simp add: check_report_style_eq)
qed

lemma phrase_advisory_not_brief: "phrase_advisory p \<noteq> brief_advisory"
  by (simp add: phrase_advisory_def brief_advisory_def)

lemma phrase_advisory_not_long: "phrase_advisory p \<noteq> long_advisory"
  by (simp add: phrase_advisory_def long_advisory_def)

lemma brief_not_long: "brief_advisory \<noteq> long_advisory"
  by (simp add: brief_advisory_def long_advisory_def)

lemma score_le_100: "score sa ef \<le> 100"
  by (simp add: score_def)

lemma overall_score_eq: "overall_score (generate_feedback sa ef) = max 0 (score sa ef)"
  using score_le_100 [of sa ef] by (simp add: generate_feedback_def)

lemma gold_standard_empty: "gold_standard_findings [] [] = []"
  by (simp add: gold_standard_findings_def union_def)

lemma set_gold_standard_findings:
  "set (gold_standard_findings E V) = set E \<union> set V"
  by (simp add: gold_standard_findings_def set_union)

lemma length_base_missed_findings:
  "length (base_missed_findings sa ef) =
     card (set (expert_positives ef) - set (student_positives sa))"
  by (simp add: base_missed_findings_def length_difference distinct_expert_positives)

lemma length_missed_negations:
  "length (missed_negations sa ef) =
     card (set (expert_negatives ef) - set (student_negatives sa))"
  by (simp add: missed_negations_def length_difference distinct_expert_negatives)

lemma length_base_misinterpretations:
  "length (base_misinterpretations sa ef) =
     card (set (student_positives sa) - set (expert_positives ef))"
  by (simp add: base_misinterpretations_def length_difference distinct_student_positives)

lemma length_negation_errors:
  "length (negation_errors sa ef) =
     card (set (student_positives sa) \<inter> set (expert_negatives ef))"
  by (simp add: negation_errors_def length_intersection distinct_student_positives)

lemma score_card:
  "score sa ef =
     100
     - int (card (set (expert_positives ef) - set (student_positives sa))) * 15
     - int (card (set (expert_negatives ef) - set (student_negatives sa))) * 5
     - int (card (set (student_positives sa) - set (expert_positives ef))) * 20
     - int (card (set (student_positives sa) \<inter> set (expert_negatives ef))) * 25
     - int (length (check_report_style (report_text sa))) * 5"
  by (simp add: score_def length_base_missed_findings length_missed_negations
      length_base_misinterpretations length_negation_errors)

subsection \<open>The style critic on the sample texts\<close>

lemma style_plain_report: "check_report_style plain_report = []"
proof -
  have w: "word_count plain_report = 16"
    by (simp add: word_count_def split_def isspace_def)
  have l: "lower plain_report = plain_report"
    by (simp add: lower_def lower_char_def)
  have p: "phrase_loop plain_report unprofessional_phrases [] = []"
    by (simp add: unprofessional_phrases_def startswith_def)
  show ?thesis
    by (simp add: check_report_style_def w l p)
qed

lemma style_short_report: "check_report_style ''Lungs are clear.'' = [brief_advisory]"
proof -
  have w: "word_count ''Lungs are clear.'' = 3"
    by (simp add: word_count_def split_def isspace_def)
  have l: "lower ''Lungs are clear.'' = ''lungs are clear.''"
    by (simp add: lower_def lower_char_def)
  have p: "phrase_loop ''lungs are clear.'' unprofessional_phrases [] = []"
    by (simp add: unprofessional_phrases_def startswith_def)
  show ?thesis
    by (simp add: check_report_style_def w l p)
qed

subsection \<open>The score is clamped\<close>

text \<open>
  C6. For every student analysis and every gold standard list, the \<open>overall_score\<close> of the
  feedback is an integer between 0 and 100, both included.
\<close>

theorem overall_score_in_range:
  "0 \<le> overall_score (generate_feedback sa ef) \<and> overall_score (generate_feedback sa ef) \<le> 100"
  by (simp add: generate_feedback_def)

subsection \<open>Disjoint categories\<close>

text \<open>
  C3. For every student analysis and gold standard list, the base finding types of the three
  categories, that is the lists \<open>correct_observations\<close>, \<open>missed_findings\<close> and
  \<open>misinterpretations\<close> before the synthesized negation strings are appended, are pairwise
  disjoint; each list of the feedback is its base list followed by the synthesized strings.
\<close>

theorem base_categories_disjoint:
  "set (base_correct_observations sa ef) \<inter> set (base_missed_findings sa ef) = {}
   \<and> set (base_correct_observations sa ef) \<inter> set (base_misinterpretations sa ef) = {}
   \<and> set (base_missed_findings sa ef) \<inter> set (base_misinterpretations sa ef) = {}
   \<and> correct_observations (generate_feedback sa ef) =
       base_correct_observations sa ef
       @ map (\<lambda>n. ''Absence of '' @ n) (correct_negations sa ef)
   \<and> missed_findings (generate_feedback sa ef) =
       base_missed_findings sa ef
       @ map (\<lambda>n. ''Missed stating the absence of '' @ n) (missed_negations sa ef)
   \<and> misinterpretations (generate_feedback sa ef) =
       base_misinterpretations sa ef
       @ map (\<lambda>n. ''Incorrectly identified '' @ n @ '' (should be absent)'')
           (negation_errors sa ef)"
proof -
  have "set (base_correct_observations sa ef) \<inter> set (base_missed_findings sa ef) = {}"
    by (auto simp: base_correct_observations_def base_missed_findings_def
        set_intersection set_difference)
  moreover
  have "set (base_correct_observations sa ef) \<inter> set (base_misinterpretations sa ef) = {}"
    by (auto simp: base_correct_observations_def base_misinterpretations_def
        set_intersection set_difference)
  moreover
  have "set (base_missed_findings sa ef) \<inter> set (base_misinterpretations sa ef) = {}"
    by (auto simp: base_missed_findings_def base_misinterpretations_def set_difference)
  ultimately show ?thesis
    by (simp add: generate_feedback_def)
qed

subsection \<open>The length advisories of the style critic\<close>

text \<open>
  C8. For every report text the brief advisory is emitted exactly when the word count is
  below 15, the long advisory exactly when it is above 100, never both; the result is the
  advisories of the phrases found in the lowered text, in the order of the phrase list,
  followed by the length advisory if there is one.
\<close>

theorem style_length_advisories:
  "(brief_advisory \<in> set (check_report_style t)) = (word_count t < 15)
   \<and> (long_advisory \<in> set (check_report_style t)) = (word_count t > 100)
   \<and> \<not> (brief_advisory \<in> set (check_report_style t)
          \<and> long_advisory \<in> set (check_report_style t))
   \<and> check_report_style t =
       map phrase_advisory (filter (\<lambda>p. contains p (lower t)) unprofessional_phrases)
       @ (if word_count t < 15 then [brief_advisory]
          else if word_count t > 100 then [long_advisory] else [])"
proof -
  have b: "(brief_advisory \<in> set (check_report_style t)) = (word_count t < 15)"
    using phrase_advisory_not_brief [symmetric] brief_not_long
    by (auto simp: check_report_style_eq)
  have l: "(long_advisory \<in> set (check_report_style t)) = (word_count t > 100)"
    using phrase_advisory_not_long [symmetric] brief_not_long [symmetric]
    by (auto simp: check_report_style_eq)
  show ?thesis
    unfolding b l using check_report_style_eq [of t] by simp
qed

subsection \<open>Parsing the negation marker\<close>


subsection \<open>One more missed finding\<close>

text \<open>
  C5. Keep the student analysis (the learner's sets and the report text) and the gold
  standard's negated set, and add to the gold standard's asserted set one type \<open>t\<close> that it
  did not hold and that the learner neither asserts nor negates. The \<open>overall_score\<close>
  becomes the maximum of 0 and the previous score minus 15.
\<close>

theorem one_more_missed_finding:
  assumes "set (expert_positives ef') = insert t (set (expert_positives ef))"
    and "set (expert_negatives ef') = set (expert_negatives ef)"
    and "t \<notin> set (expert_positives ef)"
    and "t \<notin> set (student_positives sa)"
    and "t \<notin> set (student_negatives sa)"
  shows "overall_score (generate_feedback sa ef') =
           max 0 (overall_score (generate_feedback sa ef) - 15)"
proof -
  have "set (expert_positives ef') - set (student_positives sa) =
          insert t (set (expert_positives ef) - set (student_positives sa))"
    using assms(1,4) by auto
  moreover have "t \<notin> set (expert_positives ef) - set (student_positives sa)"
    using assms(3) by simp
  ultimately have missed:
    "card (set (expert_positives ef') - set (student_positives sa)) =
       Suc (card (set (expert_positives ef) - set (student_positives sa)))"
    by simp
  have "set (student_positives sa) - set (expert_positives ef') =
          set (student_positives sa) - set (expert_positives ef)"
    using assms(1,4) by auto
  then have "score sa ef' = score sa ef - 15"
    by (simp add: score_card missed assms(2))
  then show ?thesis
    by (simp add: overall_score_eq)
qed

text \<open>
  An instance: gold standard pneumonia, learner pneumonia, score 100; with effusion added
  to the gold standard the score is 85.
\<close>

theorem one_more_missed_finding_witness:
  "''effusion'' \<notin> set (expert_positives [''pneumonia''])
   \<and> set (expert_positives [''pneumonia'', ''effusion'']) =
       insert ''effusion'' (set (expert_positives [''pneumonia'']))
   \<and> overall_score (generate_feedback
      \<lparr>fallback = \<lparr>findings = [\<lparr>type = ''pneumonia'', negated = False\<rparr>]\<rparr>,
       report_text = plain_report\<rparr> [''pneumonia'', ''effusion'']) = 85
   \<and> overall_score (generate_feedback
      \<lparr>fallback = \<lparr>findings = [\<lparr>type = ''pneumonia'', negated = False\<rparr>]\<rparr>,
       report_text = plain_report\<rparr> [''pneumonia'']) = 100"
proof -
  let ?sa = "\<lparr>fallback = \<lparr>findings = [\<lparr>type = ''pneumonia'', negated = False\<rparr>]\<rparr>,
       report_text = plain_report\<rparr>"
  have sp: "student_positives ?sa = [''pneumonia'']" and sn: "student_negatives ?sa = []"
    by (simp_all add: student_positives_def student_negatives_def)
  have ep: "expert_positives [''pneumonia''] = [''pneumonia'']"
    and en: "expert_negatives [''pneumonia''] = []"
    and ep': "expert_positives [''pneumonia'', ''effusion''] = [''pneumonia'', ''effusion'']"
    and en': "expert_negatives [''pneumonia'', ''effusion''] = []"
    by (simp_all add: expert_positives_def expert_negatives_def startswith_def)
  have base: "overall_score (generate_feedback ?sa [''pneumonia'']) = 100"
    by (simp add: overall_score_eq score_def base_missed_findings_def missed_negations_def
        base_misinterpretations_def negation_errors_def difference_def intersection_def
        sp sn ep en style_plain_report)
  have "overall_score (generate_feedback ?sa [''pneumonia'', ''effusion'']) =
          max 0 (overall_score (generate_feedback ?sa [''pneumonia'']) - 15)"
    by (rule one_more_missed_finding [where t = "''effusion''"])
       (auto simp: sp sn ep en ep' en')
  with base show ?thesis by (auto simp: ep ep')
qed

subsection \<open>The gold standard is a union\<close>

text \<open>
  C9. The asserted set parsed from the gold standard is the union of the expert's asserted
  set and the auxiliary detector's findings, the negated set is the expert's negated set,
  and exchanging the two inputs of the union changes none of these sets. The auxiliary
  findings are asserted findings: none of them carries the negation marker. (The vision
  analyzer returns \<^verbatim>\<open>["visual_anomaly"]\<close> or the empty list.)
\<close>

theorem gold_standard_union:
  assumes "\<forall>v \<in> set visual. \<not> startswith v ''-''"
  shows "set (expert_positives (gold_standard_findings expert visual)) =
           set (expert_positives expert) \<union> set visual
         \<and> set (expert_negatives (gold_standard_findings expert visual)) =
           set (expert_negatives expert)
         \<and> set (gold_standard_findings visual expert) =
           set (gold_standard_findings expert visual)
         \<and> set (expert_positives (gold_standard_findings visual expert)) =
           set (expert_positives (gold_standard_findings expert visual))
         \<and> set (expert_negatives (gold_standard_findings visual expert)) =
           set (expert_negatives (gold_standard_findings expert visual))"
proof -
  have sw: "set (gold_standard_findings visual expert) =
           set (gold_standard_findings expert visual)"
    by (auto simp: set_gold_standard_findings)
  have p: "set (expert_positives (gold_standard_findings expert visual)) =
           set (expert_positives expert) \<union> set visual"
    using assms by (auto simp: set_expert_positives set_gold_standard_findings)
  have "{f \<in> set expert \<union> set visual. startswith f ''-''} = {f \<in> set expert. startswith f ''-''}"
    using assms by auto
  then have n: "set (expert_negatives (gold_standard_findings expert visual)) =
           set (expert_negatives expert)"
    by (simp add: set_expert_negatives set_gold_standard_findings)
  show ?thesis
    using p n sw by (simp add: set_expert_positives set_expert_negatives)
qed

text \<open>
  An instance: expert labels pneumonia and negated effusion, auxiliary finding
  \<open>visual_anomaly\<close>.
\<close>

theorem gold_standard_union_witness:
  "set (expert_positives (gold_standard_findings [''pneumonia'', ''-effusion''] [''visual_anomaly'']))
     = {''pneumonia'', ''visual_anomaly''}
   \<and> set (expert_negatives (gold_standard_findings [''pneumonia'', ''-effusion''] [''visual_anomaly'']))
     = {''effusion''}
   \<and> set (gold_standard_findings [''visual_anomaly''] [''pneumonia'', ''-effusion''])
     = set (gold_standard_findings [''pneumonia'', ''-effusion''] [''visual_anomaly''])"
proof -
  have h: "\<forall>v \<in> set [''visual_anomaly'']. \<not> startswith v ''-''"
    by (simp add: startswith_def)
  have "expert_positives [''pneumonia'', ''-effusion''] = [''pneumonia'']"
    and "expert_negatives [''pneumonia'', ''-effusion''] = [''effusion'']"
    by (simp_all add: expert_positives_def expert_negatives_def startswith_def lstrip_def)
  then show ?thesis
    using gold_standard_union [OF h, of "[''pneumonia'', ''-effusion'']"] by auto
qed

subsection \<open>A learner asserting what the gold standard negates\<close>

text \<open>
  C1, as the code has it. With the gold standard \<open>-pneumothorax\<close> and a learner who asserts
  pneumothorax, \<open>misinterpretations\<close> holds the type itself and the string
  \<open>Incorrectly identified pneumothorax (should be absent)\<close>, and for every report text the
  score is 45 below the score of the same input without the learner's assertion: the type
  counts as a misinterpretation (20) and as a negation error (25).
\<close>

theorem negation_error_penalty:
  "misinterpretations (generate_feedback
      \<lparr>fallback = \<lparr>findings = [\<lparr>type = ''pneumothorax'', negated = False\<rparr>]\<rparr>,
       report_text = t\<rparr> [''-pneumothorax''])
     = [''pneumothorax'', ''Incorrectly identified pneumothorax (should be absent)'']
   \<and> overall_score (generate_feedback
      \<lparr>fallback = \<lparr>findings = [\<lparr>type = ''pneumothorax'', negated = False\<rparr>]\<rparr>,
       report_text = t\<rparr> [''-pneumothorax''])
     = overall_score (generate_feedback
      \<lparr>fallback = \<lparr>findings = []\<rparr>, report_text = t\<rparr> [''-pneumothorax'']) - 45"
proof -
  let ?sa = "\<lparr>fallback = \<lparr>findings = [\<lparr>type = ''pneumothorax'', negated = False\<rparr>]\<rparr>,
       report_text = t\<rparr>"
  let ?sb = "\<lparr>fallback = \<lparr>findings = []\<rparr>, report_text = t\<rparr>"
  have ep: "expert_positives [''-pneumothorax''] = []"
    and en: "expert_negatives [''-pneumothorax''] = [''pneumothorax'']"
    by (simp_all add: expert_positives_def expert_negatives_def startswith_def lstrip_def)
  have sp: "student_positives ?sa = [''pneumothorax'']" and sn: "student_negatives ?sa = []"
    and bp: "student_positives ?sb = []" and bn: "student_negatives ?sb = []"
    by (simp_all add: student_positives_def student_negatives_def)
  have sa: "score ?sa [''-pneumothorax''] = 50 - int (length (check_report_style t)) * 5"
    by (simp add: score_def base_missed_findings_def missed_negations_def
        base_misinterpretations_def negation_errors_def difference_def intersection_def
        ep en sp sn)
  have sb: "score ?sb [''-pneumothorax''] = 95 - int (length (check_report_style t)) * 5"
    by (simp add: score_def base_missed_findings_def missed_negations_def
        base_misinterpretations_def negation_errors_def difference_def intersection_def
        ep en bp bn)
  have "0 \<le> score ?sa [''-pneumothorax'']" and "0 \<le> score ?sb [''-pneumothorax'']"
    using length_check_report_style [of t] by (simp_all add: sa sb)
  then have "overall_score (generate_feedback ?sa [''-pneumothorax''])
      = overall_score (generate_feedback ?sb [''-pneumothorax'']) - 45"
    by (simp add: overall_score_eq sa sb)
  moreover have "misinterpretations (generate_feedback ?sa [''-pneumothorax''])
     = [''pneumothorax'', ''Incorrectly identified pneumothorax (should be absent)'']"
    by (simp add: generate_feedback_def base_misinterpretations_def negation_errors_def
        difference_def intersection_def ep en sp)
  ultimately show ?thesis by simp
qed

text \<open>
  The claim of a string \<open>incorrectly asserted pneumothorax (should be absent)\<close> and of a
  difference of 25 fails on the sample report: the string is absent and the scores are 50
  and 95.
\<close>

theorem negation_error_penalty_counterexample:
  "''incorrectly asserted pneumothorax (should be absent)'' \<notin>
     set (misinterpretations (generate_feedback
      \<lparr>fallback = \<lparr>findings = [\<lparr>type = ''pneumothorax'', negated = False\<rparr>]\<rparr>,
       report_text = plain_report\<rparr> [''-pneumothorax'']))
   \<and> overall_score (generate_feedback
      \<lparr>fallback = \<lparr>findings = [\<lparr>type = ''pneumothorax'', negated = False\<rparr>]\<rparr>,
       report_text = plain_report\<rparr> [''-pneumothorax'']) = 50
   \<and> overall_score (generate_feedback
      \<lparr>fallback = \<lparr>findings = []\<rparr>, report_text = plain_report\<rparr> [''-pneumothorax'']) = 95"
proof -
  let ?sa = "\<lparr>fallback = \<lparr>findings = [\<lparr>type = ''pneumothorax'', negated = False\<rparr>]\<rparr>,
       report_text = plain_report\<rparr>"
  let ?sb = "\<lparr>fallback = \<lparr>findings = []\<rparr>, report_text = plain_report\<rparr>"
  have ep: "expert_positives [''-pneumothorax''] = []"
    and en: "expert_negatives [''-pneumothorax''] = [''pneumothorax'']"
    by (simp_all add: expert_positives_def expert_negatives_def startswith_def lstrip_def)
  have sp: "student_positives ?sa = [''pneumothorax'']" and sn: "student_negatives ?sa = []"
    and bp: "student_positives ?sb = []" and bn: "student_negatives ?sb = []"
    by (simp_all add: student_positives_def student_negatives_def)
  have "score ?sa [''-pneumothorax''] = 50"
    by (simp add: score_def base_missed_findings_def missed_negations_def
        base_misinterpretations_def negation_errors_def difference_def intersection_def
        ep en sp sn style_plain_report)
  moreover have "score ?sb [''-pneumothorax''] = 95"
    by (simp add: score_def base_missed_findings_def missed_negations_def
        base_misinterpretations_def negation_errors_def difference_def intersection_def
        ep en bp bn style_plain_report)
  moreover have "misinterpretations (generate_feedback ?sa [''-pneumothorax''])
     = [''pneumothorax'', ''Incorrectly identified pneumothorax (should be absent)'']"
    by (simp add: generate_feedback_def base_misinterpretations_def negation_errors_def
        difference_def intersection_def ep en sp)
  ultimately show ?thesis
    by (simp add: overall_score_eq)
qed

subsection \<open>The learner's finding sets\<close>

text \<open>
  C2, as the code has it. A type is in the negated set exactly when some candidate of that
  type is flagged negated, and in the asserted set exactly when some candidate of that
  type is not flagged; the two sets are built independently of each other, so their
  intersection is the set of types that have candidates of both kinds.
\<close>

theorem finding_sets_membership:
  "set (student_negatives sa) = type ` {f \<in> set (findings (fallback sa)). negated f}
   \<and> set (student_positives sa) = type ` {f \<in> set (findings (fallback sa)). \<not> negated f}
   \<and> set (student_positives sa) \<inter> set (student_negatives sa) =
       type ` {f \<in> set (findings (fallback sa)). \<not> negated f}
       \<inter> type ` {f \<in> set (findings (fallback sa)). negated f}"
  by (simp add: set_student_positives set_student_negatives)

text \<open>
  Negated precedence fails: a type mentioned once unnegated and once negated is in both
  sets.
\<close>

theorem finding_sets_overlap_counterexample:
  "''pneumonia'' \<in> set (student_positives
       \<lparr>fallback = \<lparr>findings = [\<lparr>type = ''pneumonia'', negated = False\<rparr>,
                                 \<lparr>type = ''pneumonia'', negated = True\<rparr>]\<rparr>,
        report_text = ''There is pneumonia. No pneumonia.''\<rparr>)
   \<and> ''pneumonia'' \<in> set (student_negatives
       \<lparr>fallback = \<lparr>findings = [\<lparr>type = ''pneumonia'', negated = False\<rparr>,
                                 \<lparr>type = ''pneumonia'', negated = True\<rparr>]\<rparr>,
        report_text = ''There is pneumonia. No pneumonia.''\<rparr>)"
  by (simp add: student_positives_def student_negatives_def)

subsection \<open>Identical finding sets\<close>

text \<open>
  C4. The engine works on well-formed sets: within one source no type is both asserted and
  negated. If the learner's asserted and negated sets equal those of the gold standard and
  the report text raises no style advisory, then the score is 100 and \<open>missed_findings\<close>
  and \<open>misinterpretations\<close> are empty. As the learner's sets equal the gold standard's,
  well-formedness is stated once, on the gold standard.
\<close>

theorem identical_sets_perfect_score:
  assumes "set (student_positives sa) = set (expert_positives ef)"
    and "set (student_negatives sa) = set (expert_negatives ef)"
    and "check_report_style (report_text sa) = []"
    and "set (expert_positives ef) \<inter> set (expert_negatives ef) = {}"
  shows "overall_score (generate_feedback sa ef) = 100
         \<and> missed_findings (generate_feedback sa ef) = []
         \<and> misinterpretations (generate_feedback sa ef) = []"
proof -
  have mf: "base_missed_findings sa ef = []"
    by (simp add: base_missed_findings_def difference_empty_iff assms(1))
  have mn: "missed_negations sa ef = []"
    by (simp add: missed_negations_def difference_empty_iff assms(2))
  have mi: "base_misinterpretations sa ef = []"
    by (simp add: base_misinterpretations_def difference_empty_iff assms(1))
  have ne: "negation_errors sa ef = []"
    by (simp add: negation_errors_def intersection_empty_iff assms(1,4))
  have "score sa ef = 100"
    by (simp add: score_def mf mn mi ne assms(3))
  then show ?thesis
    by (simp add: generate_feedback_def mf mn mi ne)
qed

text \<open>
  An instance: pneumonia asserted and effusion negated on both sides.
\<close>

theorem identical_sets_perfect_score_witness:
  "overall_score (generate_feedback
      \<lparr>fallback = \<lparr>findings = [\<lparr>type = ''pneumonia'', negated = False\<rparr>,
                                \<lparr>type = ''effusion'', negated = True\<rparr>]\<rparr>,
       report_text = plain_report\<rparr> [''pneumonia'', ''-effusion'']) = 100
   \<and> missed_findings (generate_feedback
      \<lparr>fallback = \<lparr>findings = [\<lparr>type = ''pneumonia'', negated = False\<rparr>,
                                \<lparr>type = ''effusion'', negated = True\<rparr>]\<rparr>,
       report_text = plain_report\<rparr> [''pneumonia'', ''-effusion'']) = []
   \<and> misinterpretations (generate_feedback
      \<lparr>fallback = \<lparr>findings = [\<lparr>type = ''pneumonia'', negated = False\<rparr>,
                                \<lparr>type = ''effusion'', negated = True\<rparr>]\<rparr>,
       report_text = plain_report\<rparr> [''pneumonia'', ''-effusion'']) = []"
  by (rule identical_sets_perfect_score)
     (simp_all add: student_positives_def student_negatives_def expert_positives_def
        expert_negatives_def startswith_def lstrip_def style_plain_report)

subsection \<open>The empty gold standard\<close>

text \<open>
  C7, as the code has it. With no expert and no auxiliary findings the gold standard is the
  empty list; \<open>missed_findings\<close> is empty and the score is 100 less 20 for each type the
  learner asserts and 5 for each style advisory, not below 0. It is 100 exactly when the
  learner asserts nothing and the report text raises no style advisory.
\<close>

theorem empty_gold_standard:
  "missed_findings (generate_feedback sa (gold_standard_findings [] [])) = []
   \<and> overall_score (generate_feedback sa (gold_standard_findings [] [])) =
       max 0 (100 - int (length (student_positives sa)) * 20
                  - int (length (check_report_style (report_text sa))) * 5)
   \<and> (overall_score (generate_feedback sa (gold_standard_findings [] [])) = 100)
       = (student_positives sa = [] \<and> check_report_style (report_text sa) = [])"
proof -
  have ep: "expert_positives [] = []" and en: "expert_negatives [] = []"
    by (simp_all add: expert_positives_def expert_negatives_def)
  have m: "missed_findings (generate_feedback sa []) = []"
    by (simp add: generate_feedback_def base_missed_findings_def missed_negations_def
        difference_def ep en)
  have s: "score sa [] = 100 - int (length (student_positives sa)) * 20
                  - int (length (check_report_style (report_text sa))) * 5"
    by (simp add: score_def base_missed_findings_def missed_negations_def
        base_misinterpretations_def negation_errors_def difference_def intersection_def ep en)
  have o: "overall_score (generate_feedback sa []) =
       max 0 (100 - int (length (student_positives sa)) * 20
                  - int (length (check_report_style (report_text sa))) * 5)"
    by (simp add: overall_score_eq s)
  have i: "(overall_score (generate_feedback sa []) = 100)
       = (student_positives sa = [] \<and> check_report_style (report_text sa) = [])"
    unfolding o by (cases "student_positives sa"; cases "check_report_style (report_text sa)") auto
  show ?thesis
    unfolding gold_standard_empty using m o i by simp
qed

text \<open>
  An instance: no findings and the sample report give the score 100.
\<close>

theorem empty_gold_standard_witness:
  "missed_findings (generate_feedback
      \<lparr>fallback = \<lparr>findings = []\<rparr>, report_text = plain_report\<rparr>
      (gold_standard_findings [] [])) = []
   \<and> overall_score (generate_feedback
      \<lparr>fallback = \<lparr>findings = []\<rparr>, report_text = plain_report\<rparr>
      (gold_standard_findings [] [])) = 100"
  using empty_gold_standard [of "\<lparr>fallback = \<lparr>findings = []\<rparr>, report_text = plain_report\<rparr>"]
  by (simp add: student_positives_def style_plain_report)

text \<open>
  A perfect score whenever the learner asserts nothing fails: the three-word report
  \<open>Lungs are clear.\<close> raises the brief advisory and scores 95.
\<close>

theorem empty_gold_standard_counterexample:
  "student_positives \<lparr>fallback = \<lparr>findings = []\<rparr>, report_text = ''Lungs are clear.''\<rparr> = []
   \<and> overall_score (generate_feedback
        \<lparr>fallback = \<lparr>findings = []\<rparr>, report_text = ''Lungs are clear.''\<rparr>
        (gold_standard_findings [] [])) = 95"
  by (simp add: gold_standard_empty overall_score_eq score_def student_positives_def
      base_missed_findings_def missed_negations_def base_misinterpretations_def
      negation_errors_def difference_def intersection_def expert_positives_def
      expert_negatives_def style_short_report)

end
